theory Spec2Isabelle
  imports Main "HOL-Library.Sublist"
begin

section \<open>The interview screener back end (src/main.py)\<close>

text \<open>
  The module is a FastAPI application over three SQLAlchemy tables (Job, Candidate,
  Interview). Every handler opens a session, reads rows by primary key, assigns fields and
  commits. The model passes the database explicitly: a handler takes the database and
  returns its HTTP outcome together with the database after the commit. Whatever a handler
  obtains from outside the process (request payloads, fresh uuids, the telephony
  provider's reply, the transcription, the language model's reply) is an argument of the
  modelled handler, so that every possible outcome of the outside world is covered.
  Files written below the artifact directory are not part of the modelled database; a
  write that fails is an outcome of the outside world like the others. A commit stores
  the values assigned to the row that differ from the loaded ones (see \<open>stored_answers\<close>
  for the one place where that matters).
\<close>

subsection \<open>Rows\<close>

text \<open>JSON values as far as the scoring reply is inspected.\<close>

datatype jval = JNull | JInt int | JStr string

text \<open>
  An answer is a dict with the keys q_idx, question, recording_url, local_audio and
  transcript (always written together) and the optional keys score and rationale.
  For the optional keys \<open>None\<close> means that the key is absent; a key that is present may
  hold the JSON null.
\<close>

record answer =
  q_idx :: int
  question :: string
  recording_url :: string
  local_audio :: string
  transcript :: string
  score :: "jval option"
  rationale :: "jval option"

record job =
  j_id :: string
  jd_text :: string
  questions :: "string list"

record candidate =
  c_id :: string
  name :: string
  phone_e164 :: string

record interview =
  i_id :: string
  job_id :: string
  candidate_id :: string
  status :: string
  provider_call_id :: "string option"
  answers :: "answer list"
  final_recommendation :: "string option"

text \<open>
  The database. \<open>job_order\<close> lists the job ids, most recently created first (the order
  \<open>get_latest_job\<close> queries). \<open>scorer_log\<close> is a ghost field: the arguments of every
  call of \<open>openai_score\<close>, oldest first; its length is the call counter of the
  scoring port.
\<close>

record db =
  jobs :: "string \<rightharpoonup> job"
  job_order :: "string list"
  candidates :: "string \<rightharpoonup> candidate"
  interviews :: "string \<rightharpoonup> interview"
  scorer_log :: "(string list \<times> string list) list"

definition init_db :: db where
  "init_db = \<lparr>jobs = Map.empty, job_order = [], candidates = Map.empty,
              interviews = Map.empty, scorer_log = []\<rparr>"

text \<open>The environment: DEVELOPMENT_MODE and OUTBOUND_WHITELIST.\<close>

record config =
  development_mode :: bool
  outbound_whitelist :: "string list"

subsection \<open>Outcomes of a handler\<close>

text \<open>
  \<open>HTTPException code detail\<close> is a raised \<open>HTTPException\<close>; \<open>Unhandled e\<close> is any
  other exception that leaves the handler (the framework answers 500).
\<close>

datatype error = HTTPException nat string | Unhandled string

text \<open>\<open>PlainTextResponse body code\<close>.\<close>

datatype plain = PlainTextResponse string nat

subsection \<open>Python helpers\<close>

text \<open>Truthiness of a string that may be \<open>None\<close>.\<close>

fun truthy :: "string option \<Rightarrow> bool" where
  "truthy None = False"
| "truthy (Some s) = (s \<noteq> [])"

text \<open>\<open>a or b\<close> on such values.\<close>

definition py_or :: "string option \<Rightarrow> string option \<Rightarrow> string option" where
  "py_or a b = (if truthy a then a else b)"

text \<open>\<open>str(n)\<close> for an integer, as the f-strings format it.\<close>

definition digit_char :: "nat \<Rightarrow> char" where
  "digit_char d = ''0123456789'' ! d"

function str_nat :: "nat \<Rightarrow> string" where
  "str_nat n = (if n < 10 then [digit_char n] else str_nat (n div 10) @ [digit_char (n mod 10)])"
  by pat_completeness auto
termination
  by (relation "measure id") auto

declare str_nat.simps [simp del]

definition str_int :: "int \<Rightarrow> string" where
  "str_int i = (if i < 0 then CHR ''-'' # str_nat (nat (- i)) else str_nat (nat i))"

subsection \<open>The recording webhook: voice_record\<close>

text \<open>
  The loop over \<open>answers\<close>: the first answer whose q_idx is the callback's is updated in
  place (\<open>a.update\<close> leaves every other key, score and rationale among them) and the
  loop breaks; the flag says whether one was found.
\<close>

fun update_found :: "int \<Rightarrow> (answer \<Rightarrow> answer) \<Rightarrow> answer list \<Rightarrow> answer list \<times> bool" where
  "update_found q f [] = ([], False)"
| "update_found q f (a # as) =
     (if q_idx a = q then (f a # as, True)
      else (case update_found q f as of (as', found) \<Rightarrow> (a # as', found)))"

text \<open>\<open>job.questions[q_idx] if 0 <= q_idx < len(job.questions) else f"Q{q_idx+1}"\<close>\<close>

definition question_text :: "string list \<Rightarrow> int \<Rightarrow> string" where
  "question_text qs q =
     (if 0 \<le> q \<and> q < int (length qs) then qs ! nat q else ''Q'' @ str_int (q + 1))"

text \<open>\<open>audio_rel\<close> and the local_audio locator built from it.\<close>

definition audio_rel :: "string \<Rightarrow> int \<Rightarrow> string" where
  "audio_rel interview_id q = interview_id @ ''/q_'' @ str_int q @ ''.mp3''"

definition local_audio_of :: "string \<Rightarrow> int \<Rightarrow> string" where
  "local_audio_of interview_id q = ''/v1/artifacts/'' @ audio_rel interview_id q"

text \<open>
  The transcription step. \<open>Inr t\<close>: \<open>openai_transcribe_from_url\<close> returned \<open>t\<close>;
  \<open>Inl e\<close>: it raised an exception whose \<open>str\<close> is \<open>e\<close>, and the handler stores
  \<open>f"(transcription_failed: {e})"\<close>.
\<close>

definition transcript_of :: "string + string \<Rightarrow> string" where
  "transcript_of tr =
     (case tr of Inr t \<Rightarrow> t | Inl e \<Rightarrow> ''(transcription_failed: '' @ e @ '')'')"

definition upsert_answer ::
  "int \<Rightarrow> string \<Rightarrow> string \<Rightarrow> string \<Rightarrow> string \<Rightarrow> answer list \<Rightarrow> answer list" where
  "upsert_answer q qtext rec_url loc tscript as =
     (case update_found q
             (\<lambda>a. a\<lparr>question := qtext, recording_url := rec_url,
                     local_audio := loc, transcript := tscript\<rparr>) as of
        (as', found) \<Rightarrow>
          if \<not> found
          then as' @ [\<lparr>q_idx = q, question = qtext, recording_url = rec_url,
                       local_audio = loc, transcript = tscript,
                       score = None, rationale = None\<rparr>]
          else as')"

text \<open>
  The question stored with the answer. In
  \<open>job.questions[q_idx] if 0 <= q_idx < len(job.questions) else f"Q{q_idx+1}"\<close> the
  chained comparison stops at \<open>0 <= q_idx\<close> when that is false, so with a missing job
  (\<open>job\<close> is \<open>None\<close>) a negative index gives the text of the else branch and only an
  index from 0 on reaches \<open>job.questions\<close> and raises AttributeError (\<open>None\<close> here).
\<close>

definition asked_question :: "job option \<Rightarrow> int \<Rightarrow> string option" where
  "asked_question job q =
     (case job of
        None \<Rightarrow> if 0 \<le> q then None else Some (''Q'' @ str_int (q + 1))
      | Some j \<Rightarrow> Some (question_text (questions j) q))"

text \<open>
  The commit of the answers. \<open>answers = inter.answers or []\<close> is the list object that was
  loaded with the row, unless that list is empty: then it is a new list. The loop and
  \<open>append\<close> change that list in place, and \<open>inter.answers = answers\<close> assigns it to a
  plain \<open>JSON\<close> column. For such a column the session writes an attribute at the commit
  only when the assigned value differs from the value it holds as loaded; an object that
  was changed in place and assigned to itself does not differ from itself, and no UPDATE
  is sent. So the list after the upsert is stored when the loaded list was empty, and
  otherwise the stored list stays as it was.
\<close>

definition stored_answers :: "answer list \<Rightarrow> answer list \<Rightarrow> answer list" where
  "stored_answers loaded assigned = (if loaded = [] then assigned else loaded)"

text \<open>
  \<open>voice_record interview_id q_idx payload download_ok save_error tr\<close>. \<open>payload\<close> is the
  request's JSON object (its string fields); \<open>download_ok\<close> says whether the download of
  the recording passed \<open>raise_for_status\<close>; \<open>save_error\<close> is the exception, if any, that
  \<open>os.makedirs\<close> and \<open>save_bytes\<close> raise when the audio is written below the artifact
  directory under the interview id as it came in the request (an id with a NUL
  character, an id too long for a file name, a file in the way); \<open>tr\<close> is the
  transcription outcome. The order of the steps is the handler's: recording URL,
  download, saving, transcription, then the rows.
\<close>

definition voice_record ::
  "string \<Rightarrow> int \<Rightarrow> (string \<rightharpoonup> string) \<Rightarrow> bool \<Rightarrow> string option \<Rightarrow> string + string \<Rightarrow> db
     \<Rightarrow> (error + plain) \<times> db" where
  "voice_record interview_id q payload download_ok save_error tr st =
     (case py_or (py_or (payload ''recording_url'') (payload ''RECORDING_URL''))
                 (payload ''url'') of
        None \<Rightarrow> (Inr (PlainTextResponse ''No recording_url'' 400), st)
      | Some rec_url \<Rightarrow>
          if rec_url = [] then (Inr (PlainTextResponse ''No recording_url'' 400), st)
          else if \<not> download_ok then (Inl (Unhandled ''HTTPStatusError''), st)
          else
            (case save_error of
               Some e \<Rightarrow> (Inl (Unhandled e), st)
             | None \<Rightarrow>
                 (case interviews st interview_id of
                    None \<Rightarrow> (Inr (PlainTextResponse ''interview not found'' 404), st)
                  | Some intv \<Rightarrow>
                      (case asked_question (jobs st (job_id intv)) q of
                         None \<Rightarrow> (Inl (Unhandled ''AttributeError''), st)
                       | Some qtext \<Rightarrow>
                           (Inr (PlainTextResponse ''OK'' 200),
                            st\<lparr>interviews := (interviews st)(interview_id \<mapsto>
                                 intv\<lparr>answers :=
                                   stored_answers (answers intv)
                                     (upsert_answer q qtext rec_url
                                        (local_audio_of interview_id q) (transcript_of tr)
                                        (answers intv))\<rparr>)\<rparr>)))))"

subsection \<open>The call-status webhook: voice_event\<close>

text \<open>
  \<open>n\<close> is the query parameter (default \<open>None\<close>), \<open>req\<close> the body when it is a dict.
  Only the four listed reports reach the row, only when the stored status is not
  "completed", and the report "completed" itself stores the status that is there.
  The handler answers OK whatever happens.
\<close>

definition terminal_reports :: "string list" where
  "terminal_reports = [''completed'', ''failed'', ''timeout'', ''rejected'']"

definition voice_event :: "string option \<Rightarrow> (string \<rightharpoonup> string) option \<Rightarrow> db \<Rightarrow> plain \<times> db" where
  "voice_event n req st =
     (PlainTextResponse ''OK'' 200,
      (case n of
         None \<Rightarrow> st
       | Some nid \<Rightarrow>
           if nid = [] then st
           else
             (case req of
                None \<Rightarrow> st
              | Some r \<Rightarrow>
                  (case r ''status'' of
                     None \<Rightarrow> st
                   | Some report \<Rightarrow>
                       if report \<in> set terminal_reports
                       then
                         (case interviews st nid of
                            None \<Rightarrow> st
                          | Some intv \<Rightarrow>
                              if status intv \<noteq> ''completed''
                              then st\<lparr>interviews := (interviews st)(nid \<mapsto>
                                     intv\<lparr>status := (if report \<noteq> ''completed'' then report
                                                       else status intv)\<rparr>)\<rparr>
                              else st)
                       else st))))"

subsection \<open>The development endpoint: simulate_answers\<close>

text \<open>
  \<open>fake_transcripts\<close> is what \<open>generate_fake_answers(job.questions)\<close> returned (it draws
  from \<open>random\<close>; it returns one non-empty text per question). The handler pairs
  questions and texts with \<open>zip\<close>, replaces the whole answer list and sets the status
  to "completed", whatever it was. It returns the number of answers.
\<close>

definition simulated_answer :: "string \<Rightarrow> nat \<times> string \<times> string \<Rightarrow> answer" where
  "simulated_answer interview_id e =
     (case e of (idx, qtext, tscript) \<Rightarrow>
        \<lparr>q_idx = int idx, question = qtext,
         recording_url = ''https://fake-recording-service.com/interview_'' @ interview_id
                           @ ''_q_'' @ str_nat idx @ ''.mp3'',
         local_audio = ''/v1/dev/fake-audio/'' @ interview_id @ ''/q_'' @ str_nat idx @ ''.mp3'',
         transcript = tscript, score = None, rationale = None\<rparr>)"

definition simulate_answers ::
  "config \<Rightarrow> string \<Rightarrow> string list \<Rightarrow> db \<Rightarrow> (error + nat) \<times> db" where
  "simulate_answers cfg interview_id fake_transcripts st =
     (if \<not> development_mode cfg
      then (Inl (HTTPException 400 ''This endpoint is only available in development mode''), st)
      else
        (case interviews st interview_id of
           None \<Rightarrow> (Inl (HTTPException 404 ''Interview not found''), st)
         | Some intv \<Rightarrow>
             (case jobs st (job_id intv) of
                None \<Rightarrow> (Inl (HTTPException 404 ''Job not found''), st)
              | Some job \<Rightarrow>
                  (let new_answers = map (simulated_answer interview_id)
                         (enumerate 0 (zip (questions job) fake_transcripts))
                   in (Inr (length new_answers),
                       st\<lparr>interviews := (interviews st)(interview_id \<mapsto>
                            intv\<lparr>answers := new_answers, status := ''completed''\<rparr>)\<rparr>)))))"

subsection \<open>Scoring and the result read: openai_score, get_interview\<close>

text \<open>
  The reply of the language model. \<open>LLMRaises\<close>: the call raised. \<open>LLMUnparsable\<close>: the
  text was not JSON, and \<open>openai_score\<close> returns its fallback dict. \<open>LLMJson s\<close>: the text
  parsed to the object \<open>s\<close>. An item of per_answer is a dict or something else; the
  recommendation is a string or absent/null. A reply whose JSON is not an object, or whose
  per_answer cannot be iterated, makes \<open>get_interview\<close> raise inside its \<open>try\<close> before it
  assigns anything, which is what \<open>LLMRaises\<close> does there.
\<close>

datatype pa_item = PANotDict | PADict "(string \<times> jval) list"

record scoring =
  per_answer :: "pa_item list"
  recommendation :: "string option"

datatype llm_reply = LLMRaises | LLMUnparsable | LLMJson scoring

text \<open>The questions and the transcripts only enter the prompt. \<open>None\<close>: the call raised.\<close>

definition openai_score :: "string list \<Rightarrow> string list \<Rightarrow> llm_reply \<Rightarrow> scoring option" where
  "openai_score qs transcripts reply =
     (case reply of
        LLMRaises \<Rightarrow> None
      | LLMUnparsable \<Rightarrow> Some \<lparr>per_answer = [], recommendation = Some ''Neutral''\<rparr>
      | LLMJson s \<Rightarrow> Some s)"

text \<open>
  \<open>{x.get("q_idx"): x for x in pa if isinstance(x, dict) and "q_idx" in x}\<close>: a later
  item replaces an earlier one with the same key.
\<close>

definition keyed_items :: "pa_item list \<Rightarrow> (jval \<times> (string \<times> jval) list) list" where
  "keyed_items pa =
     concat (map (\<lambda>x. case x of
                         PANotDict \<Rightarrow> []
                       | PADict d \<Rightarrow> (case map_of d ''q_idx'' of
                                       None \<Rightarrow> []
                                     | Some k \<Rightarrow> [(k, d)])) pa)"

definition by_idx :: "pa_item list \<Rightarrow> (jval \<rightharpoonup> (string \<times> jval) list)" where
  "by_idx pa = map_of (rev (keyed_items pa))"

text \<open>\<open>d.get(k)\<close> on a JSON object.\<close>

definition dict_get :: "(string \<times> jval) list \<Rightarrow> string \<Rightarrow> jval" where
  "dict_get d k = (case map_of d k of None \<Rightarrow> JNull | Some v \<Rightarrow> v)"

text \<open>The loop that writes score and rationale onto the answers that have an item.\<close>

definition apply_scores :: "pa_item list \<Rightarrow> answer list \<Rightarrow> answer list" where
  "apply_scores pa as =
     map (\<lambda>a. case by_idx pa (JInt (q_idx a)) of
                None \<Rightarrow> a
              | Some b \<Rightarrow> a\<lparr>score := Some (dict_get b ''score''),
                              rationale := Some (dict_get b ''rationale'')\<rparr>) as"

record interview_result =
  r_interview_id :: string
  r_status :: string
  r_job_id :: string
  r_questions :: "string list"
  r_candidate_id :: string
  r_name :: string
  r_phone_e164 :: string
  r_answers :: "answer list"
  r_final_recommendation :: "string option"
  r_dev_mode :: bool

definition have_all :: "job \<Rightarrow> answer list \<Rightarrow> bool" where
  "have_all job answers_sorted =
     (length answers_sorted = length (questions job)
      \<and> list_all (\<lambda>t. t \<noteq> []) (map transcript answers_sorted))"

definition needs_scoring :: "interview \<Rightarrow> job \<Rightarrow> bool" where
  "needs_scoring intv job =
     (have_all job (sort_key q_idx (answers intv))
      \<and> (\<not> truthy (final_recommendation intv)
           \<or> \<not> list_ex (\<lambda>a. score a \<noteq> None) (sort_key q_idx (answers intv))))"

text \<open>
  \<open>get_interview cfg interview_id reply\<close>; \<open>reply\<close> is what the language model answers if
  it is asked. The response is built from the row as loaded, so it shows the status
  before the scoring pass; the scored answers and the recommendation are in it. A scoring
  failure is swallowed. A missing job raises at \<open>len(job.questions)\<close>, a missing
  candidate only when the response is built, after the commit.
\<close>

definition get_interview ::
  "config \<Rightarrow> string \<Rightarrow> llm_reply \<Rightarrow> db \<Rightarrow> (error + interview_result) \<times> db" where
  "get_interview cfg interview_id reply st =
     (case interviews st interview_id of
        None \<Rightarrow> (Inl (HTTPException 404 ''Not found''), st)
      | Some intv \<Rightarrow>
          (case jobs st (job_id intv) of
             None \<Rightarrow> (Inl (Unhandled ''AttributeError''), st)
           | Some job \<Rightarrow>
               (let answers_sorted = sort_key q_idx (answers intv);
                    transcripts = map transcript answers_sorted;
                    logged = st\<lparr>scorer_log := scorer_log st @ [(questions job, transcripts)]\<rparr>;
                    (shown_answers, shown_rec, st') =
                      (if needs_scoring intv job
                       then
                         (case openai_score (questions job) transcripts reply of
                            None \<Rightarrow> (answers_sorted, final_recommendation intv, logged)
                          | Some sc \<Rightarrow>
                              (let scored = apply_scores (per_answer sc) answers_sorted
                               in (scored, recommendation sc,
                                   logged\<lparr>interviews := (interviews logged)(interview_id \<mapsto>
                                     intv\<lparr>answers := scored,
                                          final_recommendation := recommendation sc,
                                          status := (if status intv \<in> {''completed'', ''failed''}
                                                     then status intv else ''completed'')\<rparr>)\<rparr>)))
                       else (answers_sorted, final_recommendation intv, st))
                in (case candidates st (candidate_id intv) of
                      None \<Rightarrow> (Inl (Unhandled ''AttributeError''), st')
                    | Some cand \<Rightarrow>
                        (Inr \<lparr>r_interview_id = i_id intv, r_status = status intv,
                              r_job_id = j_id job, r_questions = questions job,
                              r_candidate_id = c_id cand, r_name = name cand,
                              r_phone_e164 = phone_e164 cand,
                              r_answers = shown_answers,
                              r_final_recommendation = shown_rec,
                              r_dev_mode = development_mode cfg\<rparr>, st')))))"

subsection \<open>Creating jobs and candidates\<close>

text \<open>
  \<open>str.strip()\<close>: leading and trailing whitespace removed. A character stands for a code
  point below 256; among those, \<open>str.isspace\<close> holds of the tab to carriage return, of
  the four separators 0x1C to 0x1F, of the space, of 0x85 and of 0xA0.
\<close>

definition is_space :: "char \<Rightarrow> bool" where
  "is_space c =
     (c \<in> set [CHR '' '', CHR 0x09, CHR 0x0A, CHR 0x0B, CHR 0x0C, CHR 0x0D,
                CHR 0x1C, CHR 0x1D, CHR 0x1E, CHR 0x1F, CHR 0x85, CHR 0xA0])"

definition py_strip :: "string \<Rightarrow> string" where
  "py_strip s = rev (dropWhile is_space (rev (dropWhile is_space s)))"

text \<open>
  \<open>jd_to_questions\<close> with a text form field (the upload of a file, which only yields the
  text another way, is left out). \<open>qs\<close> is the list of lines \<open>openai_questions\<close> parsed
  from the model's reply, \<open>None\<close> when the call raised; it returns \<open>qs[:7]\<close>.
  \<open>new_id\<close> is the fresh \<open>uuid4().hex\<close>; inserting a primary key that exists raises
  IntegrityError at the commit.
\<close>

definition openai_questions :: "string list option \<Rightarrow> string list option" where
  "openai_questions qs = map_option (take 7) qs"

definition jd_to_questions ::
  "string option \<Rightarrow> string list option \<Rightarrow> string \<Rightarrow> db \<Rightarrow> (error + string \<times> string list) \<times> db" where
  "jd_to_questions jd qs new_id st =
     (if \<not> truthy jd then (Inl (HTTPException 400 ''Provide jd_text or file''), st)
      else
        (let text = py_strip (case jd of None \<Rightarrow> [] | Some t \<Rightarrow> t) in
         if text = [] then (Inl (HTTPException 400 ''Empty JD''), st)
         else
           (case openai_questions qs of
              None \<Rightarrow> (Inl (Unhandled ''OpenAIError''), st)
            | Some generated \<Rightarrow>
                if new_id \<in> dom (jobs st) then (Inl (Unhandled ''IntegrityError''), st)
                else (Inr (new_id, generated),
                      st\<lparr>jobs := (jobs st)(new_id \<mapsto>
                             \<lparr>j_id = new_id, jd_text = text, questions = generated\<rparr>),
                         job_order := new_id # job_order st\<rparr>))))"

text \<open>
  \<open>get_latest_job\<close> takes the first job in descending order of \<open>created_at\<close>, a time
  stamp of the database with a resolution of one second. \<open>job_order\<close> is that order for
  jobs created in different seconds; which of two jobs of the same second the query
  returns is not fixed by the source, and the head of \<open>job_order\<close> stands for it.
\<close>

definition get_latest_job :: "db \<Rightarrow> job option" where
  "get_latest_job st = (case job_order st of [] \<Rightarrow> None | j # _ \<Rightarrow> jobs st j)"

text \<open>
  \<open>to_e164\<close> calls the phonenumbers library; its outcome \<open>e164\<close> is \<open>None\<close> when the
  number is rejected (HTTP 400) and the formatted number otherwise.
\<close>

definition ensure_whitelisted :: "config \<Rightarrow> string \<Rightarrow> error option" where
  "ensure_whitelisted cfg phone =
     (if outbound_whitelist cfg \<noteq> [] \<and> phone \<notin> set (outbound_whitelist cfg)
      then Some (HTTPException 403 ''Outbound number not in whitelist'') else None)"

definition add_candidate ::
  "config \<Rightarrow> string \<Rightarrow> string option \<Rightarrow> string \<Rightarrow> db \<Rightarrow> (error + candidate) \<times> db" where
  "add_candidate cfg nm e164 new_id st =
     (case e164 of
        None \<Rightarrow> (Inl (HTTPException 400 ''Invalid E.164 phone''), st)
      | Some phone \<Rightarrow>
          (case (if \<not> development_mode cfg then ensure_whitelisted cfg phone else None) of
             Some e \<Rightarrow> (Inl e, st)
           | None \<Rightarrow>
               if new_id \<in> dom (candidates st) then (Inl (Unhandled ''IntegrityError''), st)
               else (let cand = \<lparr>c_id = new_id, name = nm, phone_e164 = phone\<rparr>
                     in (Inr cand, st\<lparr>candidates := (candidates st)(new_id \<mapsto> cand)\<rparr>))))"

subsection \<open>Triggering an interview: trigger_interview\<close>

record trigger_in =
  t_candidate_id :: "string option"
  t_name :: "string option"
  t_phone_e164 :: "string option"
  t_job_id :: "string option"
  from_number :: string

text \<open>
  What placing the call can do, in the order of the handler. \<open>NotConfigured\<close>:
  \<open>build_vonage_jwt\<close> raises HTTPException 500 (application id or key file missing).
  \<open>PostRaised\<close>: the HTTP request itself raised (time-out of 30 seconds, connection
  error). \<open>Responded code text body\<close>: the provider answered with that status code and
  text; \<open>body\<close> is \<open>None\<close> when the text is not JSON and otherwise the value under
  "uuid" (\<open>None\<close> when there is none).
\<close>

datatype dispatch_outcome =
  NotConfigured | PostRaised | Responded nat string "string option option"

record trigger_env =
  e164 :: "string option"
  new_candidate_id :: string
  new_interview_id :: string
  fake_call_id :: string
  dispatch :: dispatch_outcome

record trigger_result =
  tr_interview_id :: string
  tr_call_uuid :: "string option"
  tr_candidate_id :: string
  tr_job_id :: string
  tr_dev_mode :: bool

text \<open>The first block of the handler: the job, then the candidate (created when absent).\<close>

definition resolve_job :: "trigger_in \<Rightarrow> db \<Rightarrow> error + job" where
  "resolve_job data st =
     (case (case t_job_id data of
              Some j \<Rightarrow> if j \<noteq> [] then jobs st j else get_latest_job st
            | None \<Rightarrow> get_latest_job st) of
        None \<Rightarrow> Inl (HTTPException 404 ''No job found. Create questions first via /v1/jd.'')
      | Some job \<Rightarrow> Inr job)"

definition resolve_candidate ::
  "config \<Rightarrow> trigger_in \<Rightarrow> trigger_env \<Rightarrow> db \<Rightarrow> (error + candidate) \<times> db" where
  "resolve_candidate cfg data env st =
     (if truthy (t_candidate_id data)
      then
        (case candidates st (case t_candidate_id data of None \<Rightarrow> [] | Some c \<Rightarrow> c) of
           None \<Rightarrow> (Inl (HTTPException 404 ''candidate_id invalid''), st)
         | Some cand \<Rightarrow> (Inr cand, st))
      else if \<not> (truthy (t_name data) \<and> truthy (t_phone_e164 data))
      then (Inl (HTTPException 400 ''Provide candidate_id OR name + phone_e164''), st)
      else add_candidate cfg (case t_name data of None \<Rightarrow> [] | Some n \<Rightarrow> n)
             (e164 env) (new_candidate_id env) st)"

text \<open>
  The rest: the interview row is inserted with status "calling" and committed; then
  either the simulated call (development mode) or the real one. Only a response with
  status code 300 or more sets the status to "failed".
\<close>

definition place_call ::
  "config \<Rightarrow> trigger_env \<Rightarrow> job \<Rightarrow> candidate \<Rightarrow> db \<Rightarrow> (error + trigger_result) \<times> db" where
  "place_call cfg env job cand st =
     (let iid = new_interview_id env;
          created = \<lparr>i_id = iid, job_id = j_id job, candidate_id = c_id cand,
                     status = ''calling'', provider_call_id = None, answers = [],
                     final_recommendation = None\<rparr>;
          st1 = st\<lparr>interviews := (interviews st)(iid \<mapsto> created)\<rparr>;
          started = (\<lambda>call. st1\<lparr>interviews := (interviews st1)(iid \<mapsto>
                       created\<lparr>provider_call_id := call, status := ''in_progress''\<rparr>)\<rparr>)
      in if iid \<in> dom (interviews st) then (Inl (Unhandled ''IntegrityError''), st)
         else if development_mode cfg
         then (Inr \<lparr>tr_interview_id = iid, tr_call_uuid = Some (fake_call_id env),
                     tr_candidate_id = c_id cand, tr_job_id = j_id job, tr_dev_mode = True\<rparr>,
               started (Some (fake_call_id env)))
         else
           (case dispatch env of
              NotConfigured \<Rightarrow>
                (Inl (HTTPException 500 ''Vonage app/private key not configured''), st1)
            | PostRaised \<Rightarrow> (Inl (Unhandled ''HTTPError''), st1)
            | Responded code text body \<Rightarrow>
                if code \<ge> 300
                then (Inl (HTTPException code (''Vonage call create failed: '' @ text)),
                      st1\<lparr>interviews := (interviews st1)(iid \<mapsto>
                            created\<lparr>status := ''failed''\<rparr>)\<rparr>)
                else
                  (case body of
                     None \<Rightarrow> (Inl (Unhandled ''JSONDecodeError''), st1)
                   | Some call_id \<Rightarrow>
                       (Inr \<lparr>tr_interview_id = iid, tr_call_uuid = call_id,
                             tr_candidate_id = c_id cand, tr_job_id = j_id job,
                             tr_dev_mode = False\<rparr>,
                        started call_id))))"

definition trigger_interview ::
  "config \<Rightarrow> trigger_in \<Rightarrow> trigger_env \<Rightarrow> db \<Rightarrow> (error + trigger_result) \<times> db" where
  "trigger_interview cfg data env st =
     (case resolve_job data st of
        Inl e \<Rightarrow> (Inl e, st)
      | Inr job \<Rightarrow>
          (case resolve_candidate cfg data env st of
             (Inl e, st') \<Rightarrow> (Inl e, st')
           | (Inr cand, st') \<Rightarrow> place_call cfg env job cand st'))"

subsection \<open>Sequences of requests\<close>

datatype op =
    JdToQuestions "string option" "string list option" string
  | AddCandidate string "string option" string
  | TriggerInterview trigger_in trigger_env
  | SimulateAnswers string "string list"
  | VoiceEvent "string option" "(string \<rightharpoonup> string) option"
  | VoiceRecord string int "string \<rightharpoonup> string" bool "string option" "string + string"
  | GetInterview string llm_reply

text \<open>The database after one request, and after a list of requests handled one by one.\<close>

fun step :: "config \<Rightarrow> op \<Rightarrow> db \<Rightarrow> db" where
  "step cfg (JdToQuestions jd qs new_id) st = snd (jd_to_questions jd qs new_id st)"
| "step cfg (AddCandidate nm e new_id) st = snd (add_candidate cfg nm e new_id st)"
| "step cfg (TriggerInterview data env) st = snd (trigger_interview cfg data env st)"
| "step cfg (SimulateAnswers iid fake) st = snd (simulate_answers cfg iid fake st)"
| "step cfg (VoiceEvent n req) st = snd (voice_event n req st)"
| "step cfg (VoiceRecord iid q payload ok sv tr) st = snd (voice_record iid q payload ok sv tr st)"
| "step cfg (GetInterview iid reply) st = snd (get_interview cfg iid reply st)"

fun run :: "config \<Rightarrow> op list \<Rightarrow> db \<Rightarrow> db" where
  "run cfg [] st = st"
| "run cfg (x # xs) st = run cfg xs (step cfg x st)"

subsection \<open>Serving artifacts: serve_artifact\<close>

text \<open>
  The handler uses \<open>os.path.join\<close>, \<open>os.path.abspath\<close> and \<open>str.startswith\<close>. The path
  functions are those of Python's posixpath module, which work on the text of a path
  alone; \<open>cwd\<close> is the working directory at start-up.
\<close>

text \<open>\<open>path.split('/')\<close>\<close>

fun split_sep :: "string \<Rightarrow> string list" where
  "split_sep [] = [[]]"
| "split_sep (c # cs) =
     (if c = CHR ''/'' then [] # split_sep cs
      else (case split_sep cs of
              [] \<Rightarrow> [[c]]
            | w # ws \<Rightarrow> (c # w) # ws))"

text \<open>\<open>'/'.join(comps)\<close>\<close>

fun join_sep :: "string list \<Rightarrow> string" where
  "join_sep [] = []"
| "join_sep [x] = x"
| "join_sep (x # y # ys) = x @ ''/'' @ join_sep (y # ys)"

text \<open>\<open>posixpath.join(a, b)\<close> with one further component.\<close>

definition path_join :: "string \<Rightarrow> string \<Rightarrow> string" where
  "path_join a b =
     (if prefix ''/'' b then b
      else if a = [] \<or> suffix ''/'' a then a @ b
      else a @ ''/'' @ b)"

text \<open>
  The loop of \<open>posixpath.normpath\<close> over the components: empty and "." components are
  skipped, ".." removes the component before it, except at the start of a relative path
  or after another "..".
\<close>

fun norm_comps :: "nat \<Rightarrow> string list \<Rightarrow> string list \<Rightarrow> string list" where
  "norm_comps initial_slashes [] new_comps = new_comps"
| "norm_comps initial_slashes (part # comps) new_comps =
     (if part = [] \<or> part = ''.'' then norm_comps initial_slashes comps new_comps
      else if part \<noteq> ''..'' \<or> (initial_slashes = 0 \<and> new_comps = [])
                \<or> (new_comps \<noteq> [] \<and> last new_comps = ''..'')
      then norm_comps initial_slashes comps (new_comps @ [part])
      else if new_comps \<noteq> [] then norm_comps initial_slashes comps (butlast new_comps)
      else norm_comps initial_slashes comps new_comps)"

definition normpath :: "string \<Rightarrow> string" where
  "normpath path =
     (if path = [] then ''.''
      else
        (let initial_slashes =
               (if prefix ''/'' path
                then (if prefix ''//'' path \<and> \<not> prefix ''///'' path then 2 else 1)
                else (0::nat));
             joined = join_sep (norm_comps initial_slashes (split_sep path) []);
             result = (if initial_slashes > 0
                       then replicate initial_slashes CHR ''/'' @ joined else joined)
         in if result = [] then ''.'' else result))"

definition abspath :: "string \<Rightarrow> string \<Rightarrow> string" where
  "abspath cwd path = normpath (if prefix ''/'' path then path else path_join cwd path)"

text \<open>\<open>ARTIFACTS_DIR = os.path.abspath("./artifacts")\<close>\<close>

definition ARTIFACTS_DIR :: "string \<Rightarrow> string" where
  "ARTIFACTS_DIR cwd = abspath cwd ''./artifacts''"

text \<open>
  \<open>serve_artifact cwd exists path\<close>; \<open>exists\<close> is \<open>os.path.exists\<close> on the file system.
  The answer is the path handed to \<open>FileResponse\<close>.
\<close>

definition serve_artifact :: "string \<Rightarrow> (string \<Rightarrow> bool) \<Rightarrow> string \<Rightarrow> error + string" where
  "serve_artifact cwd exists path =
     (let ap = path_join (ARTIFACTS_DIR cwd) path in
      if \<not> prefix (ARTIFACTS_DIR cwd) (abspath cwd ap) then Inl (HTTPException 403 ''Invalid path'')
      else if \<not> exists ap then Inl (HTTPException 404 ''Not found'')
      else Inr ap)"

text \<open>
  A path lies inside a directory when, normalised, it is the directory or continues it
  after a separator.
\<close>

definition inside_dir :: "string \<Rightarrow> string \<Rightarrow> string \<Rightarrow> bool" where
  "inside_dir cwd root p =
     (abspath cwd p = root \<or> prefix (root @ ''/'') (abspath cwd p))"

subsection \<open>Classes of requests used in the statements\<close>





text \<open>An interview is scored: it has a non-empty recommendation and an answer with a score.\<close>

definition scored :: "interview \<Rightarrow> bool" where
  "scored intv =
     (truthy (final_recommendation intv) \<and> list_ex (\<lambda>a. score a \<noteq> None) (answers intv))"

subsection \<open>A concrete run\<close>

text \<open>
  One job with the questions Q1, Q2, Q3 and one interview "i1" of a candidate created on
  the way, in production mode, with a call that the provider accepted.
\<close>

definition prod_cfg :: config where
  "prod_cfg = \<lparr>development_mode = False, outbound_whitelist = []\<rparr>"


definition demo_trigger :: trigger_in where
  "demo_trigger = \<lparr>t_candidate_id = None, t_name = Some ''Ada'',
                    t_phone_e164 = Some ''+14155550100'', t_job_id = None,
                    from_number = ''+12025550123''\<rparr>"

definition demo_env :: "dispatch_outcome \<Rightarrow> trigger_env" where
  "demo_env d = \<lparr>e164 = Some ''+14155550100'', new_candidate_id = ''c1'',
                  new_interview_id = ''i1'', fake_call_id = ''dev_call_0'', dispatch = d\<rparr>"

definition demo_job :: op where
  "demo_job = JdToQuestions (Some ''Backend engineer'') (Some [''Q1'', ''Q2'', ''Q3'']) ''j1''"

definition scenario_db :: db where
  "scenario_db =
     run prod_cfg
       [demo_job, TriggerInterview demo_trigger (demo_env (Responded 200 [] (Some (Some ''call-1''))))]
       init_db"

text \<open>The recording callback for index \<open>q\<close> of "i1" whose transcription is \<open>t\<close>.\<close>

definition deliver :: "int \<Rightarrow> string \<Rightarrow> op" where
  "deliver q t =
     VoiceRecord ''i1'' q [''recording_url'' \<mapsto> ''https://rec.example/'' @ str_int q]
       True None (Inr t)"





subsection \<open>Invariants of the database\<close>



section \<open>Properties\<close>

subsection \<open>The upsert loop\<close>


lemma update_found_flag: "snd (update_found q f as) = (q \<in> q_idx ` set as)"
  by (induction as) (auto split: prod.splits)

lemma update_found_length: "length (fst (update_found q f as)) = length as"
  by (induction as) (auto split: prod.splits)

lemma update_found_others:
  "(\<And>a. q_idx (f a) = q_idx a) \<Longrightarrow>
   filter (\<lambda>a. q_idx a \<noteq> q) (fst (update_found q f as)) = filter (\<lambda>a. q_idx a \<noteq> q) as"
  by (induction as) (auto split: prod.splits)

lemma update_found_mem:
  "q \<in> q_idx ` set as \<Longrightarrow> \<exists>a \<in> set as. q_idx a = q \<and> f a \<in> set (fst (update_found q f as))"
  by (induction as) (auto split: prod.splits)

lemma update_found_set:
  "b \<in> set (fst (update_found q f as)) \<Longrightarrow> b \<in> set as \<or> (\<exists>a \<in> set as. b = f a)"
  by (induction as arbitrary: b) (auto split: prod.splits if_splits)

lemma upsert_answer_eq:
  "upsert_answer q qt u l t as =
     (let as' = fst (update_found q
                  (\<lambda>a. a\<lparr>question := qt, recording_url := u, local_audio := l, transcript := t\<rparr>) as)
      in if q \<in> q_idx ` set as then as'
         else as' @ [\<lparr>q_idx = q, question = qt, recording_url = u, local_audio = l,
                      transcript = t, score = None, rationale = None\<rparr>])"
proof -
  let ?f = "\<lambda>a. a\<lparr>question := qt, recording_url := u, local_audio := l, transcript := t\<rparr>"
  obtain as' found where r: "update_found q ?f as = (as', found)"
    by (cases "update_found q ?f as")
  from update_found_flag [of q ?f as] r have "found = (q \<in> q_idx ` set as)"
    by simp
  with r show ?thesis
    by (simp add: upsert_answer_def)
qed



lemma upsert_answer_others:
  "filter (\<lambda>a. q_idx a \<noteq> q) (upsert_answer q qt u l t as) = filter (\<lambda>a. q_idx a \<noteq> q) as"
  by (simp add: upsert_answer_eq update_found_others Let_def)

lemma upsert_answer_mem:
  "\<exists>a \<in> set (upsert_answer q qt u l t as).
     q_idx a = q \<and> question a = qt \<and> recording_url a = u \<and> local_audio a = l \<and> transcript a = t"
proof (cases "q \<in> q_idx ` set as")
  case True
  let ?f = "\<lambda>a. a\<lparr>question := qt, recording_url := u, local_audio := l, transcript := t\<rparr>"
  from update_found_mem [OF True, of ?f]
  obtain a where a: "q_idx a = q" "?f a \<in> set (fst (update_found q ?f as))"
    by blast
  with True show ?thesis
    by (intro bexI [where x = "?f a"]) (simp_all add: upsert_answer_eq)
next
  case False
  then show ?thesis
    by (simp add: upsert_answer_eq Let_def)
qed

lemma upsert_answer_length:
  "length (upsert_answer q qt u l t as) = (if q \<in> q_idx ` set as then length as else Suc (length as))"
  by (simp add: upsert_answer_eq update_found_length Let_def)


subsection \<open>What a request does to the jobs and to one interview row\<close>
































subsection \<open>Well-formed databases\<close>














subsection \<open>Answers within the range of the questions\<close>







subsection \<open>Status and recommendation along a run\<close>






lemma apply_scores_score_kept:
  "list_ex (\<lambda>a. score a \<noteq> None) as \<Longrightarrow> list_ex (\<lambda>a. score a \<noteq> None) (apply_scores pa as)"
  by (induction as) (auto simp: apply_scores_def split: option.splits)



subsection \<open>The result read\<close>









section \<open>The claims\<close>

subsection \<open>Facts about the concrete runs\<close>

lemma scenario_interview:
  "interviews scenario_db ''i1'' = Some \<lparr>i_id = ''i1'', job_id = ''j1'', candidate_id = ''c1'',
      status = ''in_progress'', provider_call_id = Some ''call-1'', answers = [],
      final_recommendation = None\<rparr>"
  by code_simp

lemma scenario_job:
  "jobs scenario_db ''j1'' =
     Some \<lparr>j_id = ''j1'', jd_text = ''Backend engineer'', questions = [''Q1'', ''Q2'', ''Q3'']\<rparr>"
  by code_simp





subsection \<open>C1: the status after "completed" and "failed"\<close>




subsection \<open>C2: how often a complete interview is scored\<close>



subsection \<open>C3: a callback for an index that already has an answer\<close>

text \<open>What the handler stores for the first answer of an interview.\<close>

lemma voice_record_first_callback:
  assumes "py_or (py_or (payload ''recording_url'') (payload ''RECORDING_URL'')) (payload ''url'') = Some url"
    and "url \<noteq> []"
    and "interviews st iid = Some intv" and "answers intv = []"
    and "jobs st (job_id intv) = Some job"
  shows "voice_record iid q payload True None tr st =
     (Inr (PlainTextResponse ''OK'' 200),
      st\<lparr>interviews := (interviews st)(iid \<mapsto>
           intv\<lparr>answers := [\<lparr>q_idx = q, question = question_text (questions job) q,
                               recording_url = url, local_audio = local_audio_of iid q,
                               transcript = transcript_of tr, score = None,
                               rationale = None\<rparr>]\<rparr>)\<rparr>)"
  using assms
  by (simp add: voice_record_def asked_question_def stored_answers_def upsert_answer_def)

text \<open>What it stores when the interview has an answer already: nothing.\<close>

lemma voice_record_later_callback:
  assumes "interviews st iid = Some intv" and "answers intv \<noteq> []"
  shows "snd (voice_record iid q payload ok sv tr st) = st"
proof -
  have "(interviews st)(iid \<mapsto> intv) = interviews st"
    using assms(1) by (rule map_upd_triv)
  with assms show ?thesis
    by (simp add: voice_record_def stored_answers_def split: option.splits)
qed

text \<open>
  Claim C3 says that a recording callback for an index that already has an answer
  overwrites that answer, the later delivery winning, and that the indices of an
  interview's answers stay pairwise different. The indices do stay different
  (\<open>run_wf\<close>), and the loop of the handler does overwrite the answer in the list it
  holds; but that list is the loaded object, changed in place and assigned to itself,
  and the commit writes nothing. After the callback for index 0 with the transcript
  "first", the callback for index 0 with the transcript "second" is answered OK and the
  stored answer still has the transcript "first".
\<close>

theorem repeated_callback_not_stored:
  "map_option (\<lambda>i. map (\<lambda>a. (q_idx a, transcript a)) (answers i))
      (interviews (run prod_cfg [deliver 0 ''first''] scenario_db) ''i1'') = Some [(0, ''first'')]
   \<and> fst (voice_record ''i1'' 0 [''recording_url'' \<mapsto> ''https://rec.example/0''] True None
            (Inr ''second'') (run prod_cfg [deliver 0 ''first''] scenario_db))
       = Inr (PlainTextResponse ''OK'' 200)
   \<and> map_option (\<lambda>i. map (\<lambda>a. (q_idx a, transcript a)) (answers i))
      (interviews (snd (voice_record ''i1'' 0 [''recording_url'' \<mapsto> ''https://rec.example/0'']
            True None (Inr ''second'') (run prod_cfg [deliver 0 ''first''] scenario_db))) ''i1'')
       = Some [(0, ''first'')]"
  by code_simp

subsection \<open>C4: the number of answers\<close>




subsection \<open>C5: the recommendation is written once\<close>




subsection \<open>C6: the order of delivery\<close>

text \<open>
  Claim C6 (scenario A) says that the callbacks for the indices 1, 0, 2 leave the same
  answers, sorted by index, as the callbacks 0, 1, 2, and that the result read then calls
  the scorer with the three questions and the three transcripts in the order of their
  indices. The handler sorts nothing away and would store all three; but only the first
  callback of an interview finds an empty list and is written by the commit (see
  \<open>stored_answers\<close>). The callbacks 1, 0, 2 leave the one answer (1, a1), the callbacks
  0, 1, 2 the one answer (0, a0), and the result read, which finds one answer for three
  questions, does not call the scorer.
\<close>

theorem scenario_a_only_first_callback_stored:
  "map_option (\<lambda>i. map (\<lambda>a. (q_idx a, transcript a)) (sort_key q_idx (answers i)))
      (interviews (run prod_cfg [deliver 1 ''a1'', deliver 0 ''a0'', deliver 2 ''a2''] scenario_db)
         ''i1'') = Some [(1, ''a1'')]
   \<and> map_option (\<lambda>i. map (\<lambda>a. (q_idx a, transcript a)) (sort_key q_idx (answers i)))
      (interviews (run prod_cfg [deliver 0 ''a0'', deliver 1 ''a1'', deliver 2 ''a2''] scenario_db)
         ''i1'') = Some [(0, ''a0'')]
   \<and> scorer_log (snd (get_interview prod_cfg ''i1'' LLMUnparsable
        (run prod_cfg [deliver 1 ''a1'', deliver 0 ''a0'', deliver 2 ''a2''] scenario_db))) = []
   \<and> scorer_log (snd (get_interview prod_cfg ''i1'' LLMRaises
        (run prod_cfg [deliver 1 ''a1'', deliver 0 ''a0'', deliver 2 ''a2''] scenario_db))) = []"
  by code_simp

subsection \<open>C7: a call that cannot be placed\<close>

text \<open>What the handler does when the provider answers with a status code of 300 or more.\<close>

lemma place_call_refused:
  assumes "\<not> development_mode cfg" "new_interview_id env \<notin> dom (interviews st)"
    and "dispatch env = Responded code text body" "code \<ge> 300"
  shows "fst (place_call cfg env job cand st) = Inl (HTTPException code (''Vonage call create failed: '' @ text))
     \<and> map_option status (interviews (snd (place_call cfg env job cand st)) (new_interview_id env)) = Some ''failed''
     \<and> map_option provider_call_id (interviews (snd (place_call cfg env job cand st)) (new_interview_id env)) = Some None"
  using assms by (simp add: place_call_def Let_def)

text \<open>
  Claim C7 says that whenever placing the call fails, the created interview becomes
  "failed". The handler marks the interview only when the provider answers with a status
  code of 300 or more. When the request to the provider raises (time-out, no connection),
  or when \<open>build_vonage_jwt\<close> raises because the application is not configured, the error
  reaches the caller and the interview, already committed, keeps the status "calling".
\<close>

theorem trigger_dispatch_exception_leaves_calling:
  "fst (trigger_interview prod_cfg demo_trigger (demo_env PostRaised) (run prod_cfg [demo_job] init_db))
     = Inl (Unhandled ''HTTPError'')
   \<and> map_option status (interviews (snd (trigger_interview prod_cfg demo_trigger (demo_env PostRaised)
         (run prod_cfg [demo_job] init_db))) ''i1'') = Some ''calling''
   \<and> fst (trigger_interview prod_cfg demo_trigger (demo_env NotConfigured) (run prod_cfg [demo_job] init_db))
     = Inl (HTTPException 500 ''Vonage app/private key not configured'')
   \<and> map_option status (interviews (snd (trigger_interview prod_cfg demo_trigger (demo_env NotConfigured)
         (run prod_cfg [demo_job] init_db))) ''i1'') = Some ''calling''"
  by code_simp

subsection \<open>C8: a failed transcription\<close>

text \<open>
  When the transcriber raises on the first callback of an interview, the answer is stored
  with the sentinel text, which is not empty.
\<close>

lemma first_callback_sentinel:
  assumes "py_or (py_or (payload ''recording_url'') (payload ''RECORDING_URL'')) (payload ''url'') = Some url"
    and "url \<noteq> []"
    and "interviews st iid = Some intv" and "answers intv = []"
    and "jobs st (job_id intv) = Some job"
  shows "voice_record iid q payload True None (Inl e) st =
     (Inr (PlainTextResponse ''OK'' 200),
      st\<lparr>interviews := (interviews st)(iid \<mapsto>
           intv\<lparr>answers := [\<lparr>q_idx = q, question = question_text (questions job) q,
                               recording_url = url, local_audio = local_audio_of iid q,
                               transcript = ''(transcription_failed: '' @ e @ '')'',
                               score = None, rationale = None\<rparr>]\<rparr>)\<rparr>)"
  using voice_record_first_callback [OF assms, of q "Inl e"]
  by (simp add: transcript_of_def)

text \<open>
  Claim C8 says that on every recording callback on which the transcriber fails the
  answer is still upserted, with a non-empty sentinel transcript, and is never dropped.
  The handler builds that answer on every such callback; it is stored only when the
  interview has no answer yet. After the callback for index 0, the callback for index 1
  on which the transcriber raises is answered OK, and the stored list is the one answer
  for index 0: the arrived answer is dropped.
\<close>

theorem failed_transcription_later_callback_dropped:
  "fst (voice_record ''i1'' 1 [''recording_url'' \<mapsto> ''https://rec.example/1''] True None
          (Inl ''boom'') (run prod_cfg [deliver 0 ''a0''] scenario_db))
     = Inr (PlainTextResponse ''OK'' 200)
   \<and> map_option (\<lambda>i. map (\<lambda>a. (q_idx a, transcript a)) (answers i))
        (interviews (snd (voice_record ''i1'' 1 [''recording_url'' \<mapsto> ''https://rec.example/1'']
           True None (Inl ''boom'') (run prod_cfg [deliver 0 ''a0''] scenario_db))) ''i1'')
     = Some [(0, ''a0'')]"
  by code_simp

subsection \<open>C9: a recording callback for an interview that does not exist\<close>

text \<open>
  Claim C9 says that a recording callback whose interview, or whose interview's job, does
  not exist fails with a 404. The handler looks for the interview only after it has found
  a recording URL in the payload, downloaded the recording and written it below the
  artifact directory: without a URL it answers 400, and a failed download or a failing
  write raises, which is a 500.
\<close>

theorem voice_record_not_found_counterexample:
  "interviews scenario_db ''nope'' = None
   \<and> fst (voice_record ''nope'' 0 Map.empty True None (Inr ''a0'') scenario_db)
       = Inr (PlainTextResponse ''No recording_url'' 400)
   \<and> fst (voice_record ''nope'' 0 [''url'' \<mapsto> ''https://rec.example/0''] False None (Inr ''a0'')
            scenario_db)
       = Inl (Unhandled ''HTTPStatusError'')
   \<and> fst (voice_record ''nope'' 0 [''url'' \<mapsto> ''https://rec.example/0''] True (Some ''OSError'')
            (Inr ''a0'') scenario_db)
       = Inl (Unhandled ''OSError'')"
  by code_simp

text \<open>
  Claim C9 as amended: a recording callback that carries a recording URL, whose download
  succeeds and whose audio is written without an error, for an interview id that does not
  exist, is answered with status 404 and the text "interview not found", and the database
  is unchanged.
\<close>

theorem voice_record_missing_interview:
  assumes "py_or (py_or (payload ''recording_url'') (payload ''RECORDING_URL'')) (payload ''url'') = Some url"
    and "url \<noteq> []"
    and "interviews st iid = None"
  shows "voice_record iid q payload True None tr st
           = (Inr (PlainTextResponse ''interview not found'' 404), st)"
  using assms by (simp add: voice_record_def)

theorem voice_record_missing_interview_witness:
  "voice_record ''nope'' 0 [''url'' \<mapsto> ''https://rec.example/0''] True None (Inr ''a0'') scenario_db
     = (Inr (PlainTextResponse ''interview not found'' 404), scenario_db)"
proof -
  have u: "py_or (py_or ([''url'' \<mapsto> ''https://rec.example/0''] ''recording_url'')
          ([''url'' \<mapsto> ''https://rec.example/0''] ''RECORDING_URL''))
          ([''url'' \<mapsto> ''https://rec.example/0''] ''url'') = Some ''https://rec.example/0''"
    by (simp add: py_or_def)
  have n: "interviews scenario_db ''nope'' = None"
    by code_simp
  have "''https://rec.example/0'' \<noteq> []" by simp
  from voice_record_missing_interview [where payload = "[''url'' \<mapsto> ''https://rec.example/0'']", OF u this n]
  show ?thesis .
qed

subsection \<open>C10: artifact paths outside the store\<close>

text \<open>
  Claim C10 says that every served file lies inside the artifact directory. The handler
  compares texts: it accepts a path whose normal form starts with the characters of
  ARTIFACTS_DIR. With the directory /srv/app/artifacts, the request path
  ../artifacts_old/secret.txt has the normal form /srv/app/artifacts_old/secret.txt,
  which starts with those characters and is in another directory; the file is served.
\<close>

theorem serve_artifact_sibling_directory:
  "serve_artifact ''/srv/app'' (\<lambda>p. p = ''/srv/app/artifacts/../artifacts_old/secret.txt'')
       ''../artifacts_old/secret.txt''
     = Inr ''/srv/app/artifacts/../artifacts_old/secret.txt''
   \<and> ARTIFACTS_DIR ''/srv/app'' = ''/srv/app/artifacts''
   \<and> abspath ''/srv/app'' ''/srv/app/artifacts/../artifacts_old/secret.txt''
       = ''/srv/app/artifacts_old/secret.txt''
   \<and> \<not> inside_dir ''/srv/app'' (ARTIFACTS_DIR ''/srv/app'')
         ''/srv/app/artifacts/../artifacts_old/secret.txt''"
  by code_simp

end
